theory Spec2Isabelle
  imports Complex_Main "HOL-Library.Word" "HOL-Library.Log_Nat"
begin

section \<open>Data model of package transport\<close>

text \<open>
  The sentinel errors of base.go, followed by the errors that come from outside the
  package: \<open>EOF\<close> (io.EOF), \<open>ErrInvalid\<close> (os.ErrInvalid, what a method of a nil
  \<open>*os.File\<close> returns) and \<open>OSError n\<close> for every other error of the operating
  system or of the pty library.
\<close>

datatype error =
    ErrTransportFailure
  | ErrUnknownTransport
  | ErrTransportTimeout
  | ErrKeyVerificationFailed
  | EOF
  | ErrInvalid
  | OSError nat

type_synonym byte = "8 word"

text \<open>A \<open>time.Duration\<close> is a count of nanoseconds.\<close>

type_synonym Duration = int

text \<open>An \<open>*os.File\<close> is an opaque handle; the nil pointer is \<open>None\<close>.\<close>

type_synonym osFile = nat

text \<open>A call either returns or panics (a Go run-time panic).\<close>

datatype 'a exec = Return 'a | Panic

text \<open>\<open>transportResult\<close>: a nil byte slice is \<open>None\<close>, a nil error is \<open>None\<close>.\<close>

record transportResult =
  result :: "byte list option"
  error :: "error option"

text \<open>
  \<open>BaseTransportArgs\<close> and \<open>SystemTransportArgs\<close>. The transport holds both through
  pointers, and every method that uses them dereferences them at once; the model covers
  the instances whose argument structures and timeouts are set, and holds them by value.
  \<open>PtyHeight\<close> and \<open>PtyWidth\<close> are read by \<open>Open\<close>; their declaration is not part
  of the listed struct, and they are taken as two more integer fields.
\<close>

record BaseTransportArgs =
  Host :: string
  Port :: int
  AuthUsername :: string
  TimeoutSocket :: Duration
  TimeoutTransport :: Duration
  PtyHeight :: int
  PtyWidth :: int

record SystemTransportArgs =
  AuthPrivateKey :: string
  AuthStrictKey :: bool
  SSHConfigFile :: string
  SSHKnownHostsFile :: string

text \<open>
  \<open>System\<close>. \<open>OpenCmd\<close> is a Go slice: \<open>None\<close> is the nil slice, which \<open>Open\<close>
  tells apart from an empty one.
\<close>

record System =
  BaseTransportArgs :: BaseTransportArgs
  SystemTransportArgs :: SystemTransportArgs
  fileObj :: "osFile option"
  OpenCmd :: "string list option"
  ExecCmd :: string

definition ReadSize :: int where
  "ReadSize = 65535"

section \<open>Formatting\<close>

text \<open>\<open>fmt.Sprintf("%d", i)\<close>: the decimal digits, with a minus sign below zero.\<close>

definition digit_char :: "nat \<Rightarrow> char" where
  "digit_char d = ''0123456789'' ! d"

fun digits :: "nat \<Rightarrow> string" where
  "digits n = (if n < 10 then [digit_char n] else digits (n div 10) @ [digit_char (n mod 10)])"

declare digits.simps [simp del]

definition sprintf_d :: "int \<Rightarrow> string" where
  "sprintf_d i = (if i < 0 then CHR ''-'' # digits (nat (- i)) else digits (nat i))"

text \<open>
  \<open>int(d.Seconds())\<close>, through \<open>float64\<close> as the code computes it. \<open>Seconds\<close> is
  \<^verbatim>\<open>sec := d / Second; nsec := d % Second; return float64(sec) + float64(nsec)/1e9\<close>.
  A \<open>float64\<close> is the rational number it denotes; \<open>float64 x\<close> rounds \<open>x\<close> to the
  nearest number with a 53-bit significand, ties to the even significand (all values met
  here lie in the normal range). Go's integer division and remainder truncate towards
  zero, and so does the conversion of a \<open>float64\<close> to \<open>int\<close>. The sum can round up to
  the next whole second: 16777216999999999 ns gives 16777217.
\<close>

definition pow2 :: "int \<Rightarrow> rat" where
  "pow2 k = (if 0 \<le> k then 2 ^ nat k else 1 / 2 ^ nat (- k))"

text \<open>The binary exponent of a positive rational: \<open>pow2 e \<le> x < pow2 (e + 1)\<close>.\<close>

definition binexp :: "rat \<Rightarrow> int" where
  "binexp x =
     (let (p, q) = quotient_of x;
          k = bitlen p - bitlen q
      in if pow2 k \<le> x then k else k - 1)"

definition round_even :: "rat \<Rightarrow> int" where
  "round_even x =
     (let r = \<lfloor>x\<rfloor>; f = x - of_int r
      in if f < 1 / 2 then r else if 1 / 2 < f then r + 1 else if even r then r else r + 1)"

definition float64 :: "rat \<Rightarrow> rat" where
  "float64 x =
     (if x = 0 then 0
      else (let a = \<bar>x\<bar>; e = binexp a; m = round_even (a / pow2 (e - 52))
            in sgn x * of_int m * pow2 (e - 52)))"

definition tdiv :: "int \<Rightarrow> int \<Rightarrow> int" where
  "tdiv a b = (if (a < 0) = (b < 0) then \<bar>a\<bar> div \<bar>b\<bar> else - (\<bar>a\<bar> div \<bar>b\<bar>))"

definition tmod :: "int \<Rightarrow> int \<Rightarrow> int" where
  "tmod a b = (if a < 0 then - (\<bar>a\<bar> mod \<bar>b\<bar>) else \<bar>a\<bar> mod \<bar>b\<bar>)"

definition Seconds :: "Duration \<Rightarrow> rat" where
  "Seconds d =
     (let sec = tdiv d 1000000000;
          nsec = tmod d 1000000000
      in float64 (float64 (of_int sec) + float64 (float64 (of_int nsec) / float64 1000000000)))"

definition int_of_float64 :: "rat \<Rightarrow> int" where
  "int_of_float64 x = (if x < 0 then - \<lfloor>- x\<rfloor> else \<lfloor>x\<rfloor>)"

definition whole_seconds :: "Duration \<Rightarrow> int" where
  "whole_seconds d = int_of_float64 (Seconds d)"

text \<open>
  The built-in \<open>append\<close> on a slice that may be nil: appending nothing to the nil slice
  leaves it nil, anything else gives a slice that is not nil.
\<close>

definition go_append :: "string list option \<Rightarrow> string list \<Rightarrow> string list option" where
  "go_append s xs =
     (case s of
        None \<Rightarrow> (if xs = [] then None else Some xs)
      | Some v \<Rightarrow> Some (v @ xs))"

text \<open>The elements of a slice, as \<open>t.OpenCmd...\<close> passes them.\<close>

definition elems :: "string list option \<Rightarrow> string list" where
  "elems s = (case s of None \<Rightarrow> [] | Some v \<Rightarrow> v)"

section \<open>The command builder\<close>

text \<open>\<open>buildOpenCmd\<close>, one binding for each assignment to \<open>t.OpenCmd\<close>.\<close>

definition buildOpenCmd :: "System \<Rightarrow> System" where
  "buildOpenCmd t =
    (let b = BaseTransportArgs t;
         s = SystemTransportArgs t;
         c1 = go_append (OpenCmd t)
                [Host b,
                 ''-p'',
                 sprintf_d (Port b),
                 ''-o'',
                 ''ConnectTimeout='' @ sprintf_d (whole_seconds (TimeoutSocket b)),
                 ''-o'',
                 ''ServerAliveInterval='' @ sprintf_d (whole_seconds (TimeoutTransport b))];
         c2 = (if AuthPrivateKey s \<noteq> ''''
               then go_append c1 [''-i'', AuthPrivateKey s]
               else c1);
         c3 = (if AuthUsername b \<noteq> ''''
               then go_append c2 [''-l'', AuthUsername b]
               else c2);
         c4 = (if \<not> AuthStrictKey s
               then go_append c3
                      [''-o'', ''StrictHostKeyChecking=no'',
                       ''-o'', ''UserKnownHostsFile=/dev/null'']
               else (let c = go_append c3 [''-o'', ''StrictHostKeyChecking=yes'']
                     in if SSHKnownHostsFile s \<noteq> ''''
                        then go_append c [''-o'', ''UserKnownHostsFile='' @ SSHKnownHostsFile s]
                        else c));
         c5 = (if SSHConfigFile s \<noteq> ''''
               then go_append c4 [''-F'', SSHConfigFile s]
               else go_append c4 [''-F'', ''/dev/null''])
     in t\<lparr>OpenCmd := c5\<rparr>)"

section \<open>Spawning: Open, OpenNetconf, Close, IsAlive\<close>

text \<open>
  \<open>exec.Command(name, arg...)\<close> describes the process to start: the program and its
  arguments. \<open>pty.Winsize\<close> carries the terminal size as two \<open>uint16\<close>.
\<close>

record command =
  cmdName :: string
  cmdArgs :: "string list"

definition exec_Command :: "string \<Rightarrow> string list \<Rightarrow> command" where
  "exec_Command name arg = \<lparr>cmdName = name, cmdArgs = arg\<rparr>"

record Winsize =
  Rows :: "16 word"
  Cols :: "16 word"

text \<open>
  The pty library is the environment: \<open>pty.StartWithSize(command, size)\<close> answers with an
  error or with the file of the new pseudo-terminal (never both, never neither), and
  \<open>pty.Start(command)\<close> is \<open>pty.StartWithSize(command, nil)\<close>. The answer may depend on
  the command and the size.
\<close>

type_synonym pty = "command \<Rightarrow> Winsize option \<Rightarrow> error + osFile"

text \<open>
  What a call of \<open>Open\<close> or \<open>OpenNetconf\<close> leaves behind: the instance after the call,
  the process it handed to the pty library, and the error it returned (\<open>None\<close> is nil).
  Logging writes to an outside sink and touches no field of the instance; it is left out.
\<close>

record opened =
  sys :: System
  started :: "command \<times> Winsize option"
  ret :: "error option"

definition Open :: "pty \<Rightarrow> System \<Rightarrow> opened" where
  "Open start t =
    (let t1 = (if OpenCmd t = None then buildOpenCmd t else t);
         t2 = (if ExecCmd t1 = '''' then t1\<lparr>ExecCmd := ''ssh''\<rparr> else t1);
         command = exec_Command (ExecCmd t2) (elems (OpenCmd t2));
         size = Some \<lparr>Rows = word_of_int (PtyHeight (BaseTransportArgs t2)),
                       Cols = word_of_int (PtyWidth (BaseTransportArgs t2))\<rparr>
     in case start command size of
          Inl err \<Rightarrow> \<lparr>sys = t2, started = (command, size), ret = Some err\<rparr>
        | Inr f \<Rightarrow> \<lparr>sys = t2\<lparr>fileObj := Some f\<rparr>, started = (command, size), ret = None\<rparr>)"

definition OpenNetconf :: "pty \<Rightarrow> System \<Rightarrow> opened" where
  "OpenNetconf start t =
    (let t1 = buildOpenCmd t;
         t2 = t1\<lparr>OpenCmd := go_append (OpenCmd t1) [''-tt'', ''-s'', ''netconf'']\<rparr>;
         command = exec_Command ''ssh'' (elems (OpenCmd t2))
     in case start command None of
          Inl err \<Rightarrow> \<lparr>sys = t2, started = (command, None), ret = Some err\<rparr>
        | Inr f \<Rightarrow> \<lparr>sys = t2\<lparr>fileObj := Some f\<rparr>, started = (command, None), ret = None\<rparr>)"

text \<open>
  \<open>Close\<close>. The environment says what closing a file returns; \<open>Close\<close> on the nil
  file returns \<open>os.ErrInvalid\<close>.
\<close>

definition Close :: "(osFile \<Rightarrow> error option) \<Rightarrow> System \<Rightarrow> System \<times> error option" where
  "Close file_Close t =
    (let err = (case fileObj t of None \<Rightarrow> Some ErrInvalid | Some f \<Rightarrow> file_Close f)
     in (t\<lparr>fileObj := None\<rparr>, err))"

definition IsAlive :: "System \<Rightarrow> bool" where
  "IsAlive t = (fileObj t \<noteq> None)"

section \<open>Reading\<close>

text \<open>
  The stream is the environment: asked to fill a buffer of a given length from a file, it
  offers some bytes and an error or nil. \<open>File_Read\<close> is \<open>(*os.File).Read\<close>: on the nil
  file it returns \<open>os.ErrInvalid\<close> and leaves the buffer alone; otherwise it copies at
  most as many bytes as the buffer holds to its front and returns their count.
\<close>

type_synonym stream = "osFile \<Rightarrow> nat \<Rightarrow> byte list \<times> error option"

definition File_Read ::
  "stream \<Rightarrow> osFile option \<Rightarrow> byte list \<Rightarrow> nat \<times> byte list \<times> error option" where
  "File_Read rd fo b =
    (case fo of
       None \<Rightarrow> (0, b, Some ErrInvalid)
     | Some f \<Rightarrow>
         (let (data, err) = rd f (length b);
              k = min (length data) (length b)
          in (k, take k data @ drop k b, err)))"

text \<open>
  \<open>read\<close>, the worker. \<open>make([]byte, n)\<close> panics for a negative length and gives
  \<open>n\<close> zero bytes otherwise.
\<close>

definition read :: "stream \<Rightarrow> System \<Rightarrow> int \<Rightarrow> transportResult exec" where
  "read rd t n =
    (if n < 0 then Panic
     else
       (let b = replicate (nat n) (0 :: byte);
            (k, b', err) = File_Read rd (fileObj t) b
        in if err \<noteq> None
           then Return \<lparr>result = None, error = Some ErrTransportFailure\<rparr>
           else Return \<lparr>result = Some b', error = None\<rparr>))"

text \<open>
  \<open>transportTimeout\<close> runs the worker on a goroutine of its own, starts a timer and waits
  in a \<open>select\<close> for the worker's channel or the timer's. Which of the two cases proceeds
  is settled by the scheduler and the clock, not by the program text, so the model takes it
  as an argument: \<open>RecvResult\<close> when the worker's result is received, \<open>RecvTimer\<close> when
  the timer's tick is. A worker that panics sends nothing and takes the program down.
\<close>

datatype selected = RecvResult | RecvTimer

definition transportTimeout ::
  "Duration \<Rightarrow> (unit \<Rightarrow> transportResult exec) \<Rightarrow> selected
     \<Rightarrow> (byte list option \<times> error option) exec" where
  "transportTimeout timeout f sel =
    (case sel of
       RecvResult \<Rightarrow>
         (case f () of
            Panic \<Rightarrow> Panic
          | Return r \<Rightarrow> Return (result r, error r))
     | RecvTimer \<Rightarrow> Return (Some [], Some ErrTransportTimeout))"

text \<open>
  \<open>Read\<close> and \<open>ReadN\<close> pass the guard the worker \<open>t.read\<close> and the size to call it
  with; the guard as listed calls a worker without arguments, so the worker is passed
  applied to its size.
\<close>

definition ReadN ::
  "stream \<Rightarrow> System \<Rightarrow> int \<Rightarrow> selected \<Rightarrow> (byte list option \<times> error option) exec" where
  "ReadN rd t n sel =
    (case transportTimeout (TimeoutTransport (BaseTransportArgs t)) (\<lambda>_. read rd t n) sel of
       Panic \<Rightarrow> Panic
     | Return (b, err) \<Rightarrow> (if err \<noteq> None then Return (b, err) else Return (b, None)))"

definition Read ::
  "stream \<Rightarrow> System \<Rightarrow> selected \<Rightarrow> (byte list option \<times> error option) exec" where
  "Read rd t sel =
    (case transportTimeout (TimeoutTransport (BaseTransportArgs t))
            (\<lambda>_. read rd t ReadSize) sel of
       Panic \<Rightarrow> Panic
     | Return (b, err) \<Rightarrow> (if err \<noteq> None then Return (b, err) else Return (b, None)))"

section \<open>Concrete instances\<close>

text \<open>
  One transport to evaluate the operations on: host 10.0.0.1, port 22, socket timeout 5 s,
  idle timeout 30 s, user admin, no private key, no strict host-key checking, no SSH config
  file, nothing built and nothing opened yet. Then two pty libraries, one that starts every
  process and one that starts none, a file whose close fails, and two streams.
\<close>

definition example_base :: BaseTransportArgs where
  "example_base =
     \<lparr>Host = ''10.0.0.1'', Port = 22, AuthUsername = ''admin'',
      TimeoutSocket = 5000000000, TimeoutTransport = 30000000000,
      PtyHeight = 24, PtyWidth = 80\<rparr>"

definition example_args :: SystemTransportArgs where
  "example_args =
     \<lparr>AuthPrivateKey = '''', AuthStrictKey = False, SSHConfigFile = '''',
      SSHKnownHostsFile = ''''\<rparr>"

definition example_system :: System where
  "example_system =
     \<lparr>BaseTransportArgs = example_base, SystemTransportArgs = example_args,
      fileObj = None, OpenCmd = None, ExecCmd = ''''\<rparr>"

definition example_vector :: "string list" where
  "example_vector =
     [''10.0.0.1'', ''-p'', ''22'', ''-o'', ''ConnectTimeout=5'', ''-o'',
      ''ServerAliveInterval=30'', ''-l'', ''admin'', ''-o'', ''StrictHostKeyChecking=no'',
      ''-o'', ''UserKnownHostsFile=/dev/null'', ''-F'', ''/dev/null'']"

definition pty_ok :: pty where
  "pty_ok c s = Inr 3"

definition pty_fail :: pty where
  "pty_fail c s = Inl (OSError 2)"

definition close_fail :: "osFile \<Rightarrow> error option" where
  "close_fail f = Some (OSError 9)"

definition stream_eof :: stream where
  "stream_eof f n = ([], Some EOF)"

definition stream_two :: stream where
  "stream_two f n = ([104, 105], None)"

section \<open>Facts about the builder\<close>

text \<open>The two timeouts of the transport above are whole seconds; the sum is exact there.\<close>

lemma whole_seconds_5s: "whole_seconds 5000000000 = 5"
  by code_simp

lemma whole_seconds_30s: "whole_seconds 30000000000 = 30"
  by code_simp

text \<open>One nanosecond short of 16777217 s, the sum rounds up to the next whole second.\<close>

lemma whole_seconds_rounds_up: "whole_seconds 16777216999999999 = 16777217"
  by code_simp

lemma buildOpenCmd_example:
  "buildOpenCmd example_system = example_system\<lparr>OpenCmd := Some example_vector\<rparr>"
  by (simp add: buildOpenCmd_def example_system_def example_base_def example_args_def
      example_vector_def go_append_def sprintf_d_def digits.simps digit_char_def
      whole_seconds_5s whole_seconds_30s)

text \<open>
  What \<open>append(t.OpenCmd, ...)\<close> does to a vector that is not empty: the tokens the
  builder gives from the nil vector come after what the vector holds. No other field is
  touched.
\<close>

lemma buildOpenCmd_appends:
  "OpenCmd (buildOpenCmd t) =
     Some (elems (OpenCmd t) @ elems (OpenCmd (buildOpenCmd (t\<lparr>OpenCmd := None\<rparr>))))"
  by (cases "OpenCmd t") (simp_all add: buildOpenCmd_def go_append_def elems_def Let_def)

lemma buildOpenCmd_frame:
  "fileObj (buildOpenCmd t) = fileObj t"
  "ExecCmd (buildOpenCmd t) = ExecCmd t"
  "BaseTransportArgs (buildOpenCmd t) = BaseTransportArgs t"
  "SystemTransportArgs (buildOpenCmd t) = SystemTransportArgs t"
  by (simp_all add: buildOpenCmd_def Let_def)

lemma Open_example:
  "Open pty_ok example_system =
     \<lparr>sys = example_system\<lparr>fileObj := Some 3, OpenCmd := Some example_vector, ExecCmd := ''ssh''\<rparr>,
      started = (\<lparr>cmdName = ''ssh'', cmdArgs = example_vector\<rparr>,
                 Some \<lparr>Rows = 24, Cols = 80\<rparr>),
      ret = None\<rparr>"
proof -
  have f: "OpenCmd example_system = None" "ExecCmd example_system = []"
    "PtyHeight (BaseTransportArgs example_system) = 24"
    "PtyWidth (BaseTransportArgs example_system) = 80"
    by (simp_all add: example_system_def example_base_def)
  show ?thesis
    by (simp add: Open_def buildOpenCmd_example Let_def f pty_ok_def exec_Command_def elems_def)
qed

text \<open>
  The two branches of the guard's \<open>select\<close>: the worker's pair handed on as it is, or
  an empty payload with the timeout error, which does not depend on the worker. Which
  branch a given duration and worker lead to is not a fact of this model.
\<close>

lemma transportTimeout_branches:
  "transportTimeout d f RecvResult =
     (case f () of Panic \<Rightarrow> Panic | Return r \<Rightarrow> Return (result r, error r))"
  "transportTimeout d f RecvTimer = Return (Some [], Some ErrTransportTimeout)"
  by (simp_all add: transportTimeout_def)

section \<open>The claims\<close>

text \<open>
  C2. For host 10.0.0.1, port 22, socket timeout 5 s, idle timeout 30 s, an empty
  private-key path, user admin, strict host-key checking off, an empty SSH config path and
  an argument vector that is empty (nil, or of length 0) to begin with, \<open>buildOpenCmd\<close>
  leaves exactly the fifteen tokens of the specification, in that order.
\<close>

theorem buildOpenCmd_fixed_inputs:
  assumes "Host (BaseTransportArgs t) = ''10.0.0.1''"
    and "Port (BaseTransportArgs t) = 22"
    and "TimeoutSocket (BaseTransportArgs t) = 5000000000"
    and "TimeoutTransport (BaseTransportArgs t) = 30000000000"
    and "AuthPrivateKey (SystemTransportArgs t) = ''''"
    and "AuthUsername (BaseTransportArgs t) = ''admin''"
    and "\<not> AuthStrictKey (SystemTransportArgs t)"
    and "SSHConfigFile (SystemTransportArgs t) = ''''"
    and "elems (OpenCmd t) = []"
  shows "OpenCmd (buildOpenCmd t) =
     Some [''10.0.0.1'', ''-p'', ''22'', ''-o'', ''ConnectTimeout=5'', ''-o'',
           ''ServerAliveInterval=30'', ''-l'', ''admin'', ''-o'', ''StrictHostKeyChecking=no'',
           ''-o'', ''UserKnownHostsFile=/dev/null'', ''-F'', ''/dev/null'']"
  using assms
  by (cases "OpenCmd t")
     (simp_all add: buildOpenCmd_def go_append_def elems_def sprintf_d_def digits.simps
        digit_char_def whole_seconds_5s whole_seconds_30s)

theorem buildOpenCmd_fixed_inputs_witness:
  "Host (BaseTransportArgs example_system) = ''10.0.0.1'' \<and>
   Port (BaseTransportArgs example_system) = 22 \<and>
   TimeoutSocket (BaseTransportArgs example_system) = 5000000000 \<and>
   TimeoutTransport (BaseTransportArgs example_system) = 30000000000 \<and>
   AuthPrivateKey (SystemTransportArgs example_system) = '''' \<and>
   AuthUsername (BaseTransportArgs example_system) = ''admin'' \<and>
   \<not> AuthStrictKey (SystemTransportArgs example_system) \<and>
   SSHConfigFile (SystemTransportArgs example_system) = '''' \<and>
   elems (OpenCmd example_system) = [] \<and>
   OpenCmd (buildOpenCmd example_system) =
     Some [''10.0.0.1'', ''-p'', ''22'', ''-o'', ''ConnectTimeout=5'', ''-o'',
           ''ServerAliveInterval=30'', ''-l'', ''admin'', ''-o'', ''StrictHostKeyChecking=no'',
           ''-o'', ''UserKnownHostsFile=/dev/null'', ''-F'', ''/dev/null'']"
proof -
  have h: "Host (BaseTransportArgs example_system) = ''10.0.0.1''"
    "Port (BaseTransportArgs example_system) = 22"
    "TimeoutSocket (BaseTransportArgs example_system) = 5000000000"
    "TimeoutTransport (BaseTransportArgs example_system) = 30000000000"
    "AuthPrivateKey (SystemTransportArgs example_system) = ''''"
    "AuthUsername (BaseTransportArgs example_system) = ''admin''"
    "\<not> AuthStrictKey (SystemTransportArgs example_system)"
    "SSHConfigFile (SystemTransportArgs example_system) = ''''"
    "elems (OpenCmd example_system) = []"
    by (simp_all add: example_system_def example_base_def example_args_def elems_def)
  from buildOpenCmd_fixed_inputs [OF h] h show ?thesis
    by simp
qed

text \<open>
  C3. \<open>IsAlive\<close> is false on an instance that holds no file, which is every instance
  before its first \<open>Open\<close>: the field is unexported, nil in a new instance, and only
  \<open>Open\<close> and \<open>OpenNetconf\<close> store a file in it. It is true right after an \<open>Open\<close>
  or \<open>OpenNetconf\<close> that returned nil, and false right after \<open>Close\<close>, whatever
  \<open>Close\<close> returned. \<open>IsAlive\<close> returns a truth value and no instance, so it changes
  nothing, and the value is that of the test \<open>fileObj \<noteq> nil\<close>.
\<close>

theorem IsAlive_lifecycle:
  "(fileObj t = None \<longrightarrow> \<not> IsAlive t) \<and>
   (ret (Open start t) = None \<longrightarrow> IsAlive (sys (Open start t))) \<and>
   (ret (OpenNetconf start t) = None \<longrightarrow> IsAlive (sys (OpenNetconf start t))) \<and>
   \<not> IsAlive (fst (Close file_Close t)) \<and>
   IsAlive t = (fileObj t \<noteq> None)"
  by (auto simp add: IsAlive_def Open_def OpenNetconf_def Close_def Let_def split: sum.splits)

theorem IsAlive_lifecycle_witness:
  "fileObj example_system = None \<and> \<not> IsAlive example_system \<and>
   ret (Open pty_ok example_system) = None \<and> IsAlive (sys (Open pty_ok example_system)) \<and>
   ret (OpenNetconf pty_ok example_system) = None \<and>
   IsAlive (sys (OpenNetconf pty_ok example_system)) \<and>
   snd (Close close_fail (sys (Open pty_ok example_system))) = Some (OSError 9) \<and>
   \<not> IsAlive (fst (Close close_fail (sys (Open pty_ok example_system))))"
proof -
  have a: "fileObj example_system = None"
    by (simp add: example_system_def)
  have b: "ret (Open pty_ok example_system) = None"
    by (simp add: Open_example)
  have c: "ret (OpenNetconf pty_ok example_system) = None"
    by (simp add: OpenNetconf_def Let_def pty_ok_def)
  have d: "snd (Close close_fail (sys (Open pty_ok example_system))) = Some (OSError 9)"
    by (simp add: Open_example Close_def close_fail_def)
  from IsAlive_lifecycle [of example_system pty_ok close_fail]
    IsAlive_lifecycle [of "sys (Open pty_ok example_system)" pty_ok close_fail] a b c d
  show ?thesis
    by simp
qed

text \<open>
  C4. Whatever error the read of the underlying stream returns inside the worker, the end
  of the stream included, the worker's result is the nil payload with
  \<open>ErrTransportFailure\<close>, and that is what \<open>ReadN\<close> and \<open>Read\<close> return when they
  receive the worker's result; when the timer is received instead they return the timeout
  error, so the stream's own error reaches the caller in neither case.
\<close>

theorem read_error_is_transport_failure:
  assumes "0 \<le> n"
    and "snd (snd (File_Read rd (fileObj t) (replicate (nat n) 0))) = Some e"
  shows "read rd t n = Return \<lparr>result = None, error = Some ErrTransportFailure\<rparr> \<and>
         ReadN rd t n RecvResult = Return (None, Some ErrTransportFailure) \<and>
         ReadN rd t n RecvTimer = Return (Some [], Some ErrTransportTimeout) \<and>
         (n = ReadSize \<longrightarrow>
            Read rd t RecvResult = Return (None, Some ErrTransportFailure) \<and>
            Read rd t RecvTimer = Return (Some [], Some ErrTransportTimeout)) \<and>
         (e \<noteq> ErrTransportFailure \<and> e \<noteq> ErrTransportTimeout \<longrightarrow>
            (\<forall>sel b. ReadN rd t n sel \<noteq> Return (b, Some e)))"
proof -
  from assms have w: "read rd t n = Return \<lparr>result = None, error = Some ErrTransportFailure\<rparr>"
    by (auto simp add: read_def Let_def split: prod.splits)
  have rn: "ReadN rd t n RecvResult = Return (None, Some ErrTransportFailure)"
    by (simp add: ReadN_def transportTimeout_def w)
  have tn: "ReadN rd t n RecvTimer = Return (Some [], Some ErrTransportTimeout)"
    by (simp add: ReadN_def transportTimeout_def)
  have r: "n = ReadSize \<longrightarrow>
      Read rd t RecvResult = Return (None, Some ErrTransportFailure) \<and>
      Read rd t RecvTimer = Return (Some [], Some ErrTransportTimeout)"
    using w by (auto simp add: Read_def transportTimeout_def)
  have never: "e \<noteq> ErrTransportFailure \<and> e \<noteq> ErrTransportTimeout \<longrightarrow>
      (\<forall>sel b. ReadN rd t n sel \<noteq> Return (b, Some e))"
  proof (intro impI allI)
    fix sel b
    assume "e \<noteq> ErrTransportFailure \<and> e \<noteq> ErrTransportTimeout"
    with rn tn show "ReadN rd t n sel \<noteq> Return (b, Some e)"
      by (cases sel) auto
  qed
  from w rn tn r never show ?thesis
    by blast
qed

theorem read_error_is_transport_failure_witness:
  "(0 :: int) \<le> ReadSize \<and>
   snd (snd (File_Read stream_eof (fileObj (sys (Open pty_ok example_system)))
               (replicate (nat ReadSize) 0))) = Some EOF \<and>
   read stream_eof (sys (Open pty_ok example_system)) ReadSize =
     Return \<lparr>result = None, error = Some ErrTransportFailure\<rparr> \<and>
   ReadN stream_eof (sys (Open pty_ok example_system)) ReadSize RecvResult =
     Return (None, Some ErrTransportFailure) \<and>
   Read stream_eof (sys (Open pty_ok example_system)) RecvResult =
     Return (None, Some ErrTransportFailure) \<and>
   Read stream_eof (sys (Open pty_ok example_system)) RecvResult \<noteq> Return (None, Some EOF)"
proof -
  have a: "(0 :: int) \<le> ReadSize"
    by (simp add: ReadSize_def)
  have b: "snd (snd (File_Read stream_eof (fileObj (sys (Open pty_ok example_system)))
               (replicate (nat ReadSize) 0))) = Some EOF"
    by (simp add: Open_example File_Read_def stream_eof_def)
  from read_error_is_transport_failure [OF a b] a b show ?thesis
    by simp
qed

text \<open>
  C9. When the worker returns no error, its payload is the whole buffer: its length is the
  requested size \<open>n\<close> (which is then not negative), however many bytes the stream
  produced; the bytes read are at its front and every position from the count of bytes
  read onwards holds zero. The count itself is not part of the result. \<open>ReadN\<close> and
  \<open>Read\<close> (with \<open>n = 65535\<close>) return that payload whenever they return no error.
\<close>

theorem successful_read_has_requested_length:
  "(read rd t n = Return r \<and> error r = None \<longrightarrow>
      (\<exists>bs. result r = Some bs \<and> 0 \<le> n \<and> length bs = nat n \<and>
         (\<forall>i. fst (File_Read rd (fileObj t) (replicate (nat n) 0)) \<le> i \<and> i < nat n
               \<longrightarrow> bs ! i = 0))) \<and>
   (ReadN rd t n sel = Return (b, None) \<longrightarrow>
      (\<exists>bs. b = Some bs \<and> 0 \<le> n \<and> length bs = nat n \<and>
         (\<forall>i. fst (File_Read rd (fileObj t) (replicate (nat n) 0)) \<le> i \<and> i < nat n
               \<longrightarrow> bs ! i = 0))) \<and>
   (Read rd t sel = Return (b', None) \<longrightarrow>
      (\<exists>bs. b' = Some bs \<and> length bs = 65535 \<and>
         (\<forall>i. fst (File_Read rd (fileObj t) (replicate 65535 0)) \<le> i \<and> i < 65535
               \<longrightarrow> bs ! i = 0)))"
proof -
  have w: "\<exists>bs. result r = Some bs \<and> 0 \<le> m \<and> length bs = nat m \<and>
         (\<forall>i. fst (File_Read rd (fileObj t) (replicate (nat m) 0)) \<le> i \<and> i < nat m
               \<longrightarrow> bs ! i = 0)"
    if "read rd t m = Return r" and "error r = None" for m r
  proof (cases "fileObj t")
    case None
    with that show ?thesis
      by (auto simp add: read_def File_Read_def split: if_splits)
  next
    case (Some f)
    obtain data err where d: "rd f (nat m) = (data, err)"
      by (cases "rd f (nat m)")
    from that Some d have m: "0 \<le> m" and e: "err = None"
      and res: "result r = Some (take (min (length data) (nat m)) data
                   @ drop (min (length data) (nat m)) (replicate (nat m) 0))"
      by (auto simp add: read_def File_Read_def Let_def split: if_splits)
    from Some d have k: "fst (File_Read rd (fileObj t) (replicate (nat m) 0))
        = min (length data) (nat m)"
      by (simp add: File_Read_def Let_def)
    show ?thesis
      using m res k by (auto simp add: nth_append min_def)
  qed
  have rn: "\<exists>r. read rd t m = Return r \<and> error r = None \<and> result r = c"
    if "transportTimeout d (\<lambda>_. read rd t m) sel = Return (c, None)" for d m c
    using that
    by (cases sel; cases "read rd t m") (simp_all add: transportTimeout_def)
  have a: "ReadN rd t n sel = Return (b, None) \<longrightarrow>
      (\<exists>r. read rd t n = Return r \<and> error r = None \<and> result r = b)"
    using rn [of "TimeoutTransport (BaseTransportArgs t)" n b]
    by (auto simp add: ReadN_def split: exec.splits if_splits)
  have c: "Read rd t sel = Return (b', None) \<longrightarrow>
      (\<exists>r. read rd t ReadSize = Return r \<and> error r = None \<and> result r = b')"
    using rn [of "TimeoutTransport (BaseTransportArgs t)" ReadSize b']
    by (auto simp add: Read_def split: exec.splits if_splits)
  have s: "nat ReadSize = 65535"
    by (simp add: ReadSize_def)
  show ?thesis
  proof (intro conjI impI)
    assume "read rd t n = Return r \<and> error r = None"
    then show "\<exists>bs. result r = Some bs \<and> 0 \<le> n \<and> length bs = nat n \<and>
         (\<forall>i. fst (File_Read rd (fileObj t) (replicate (nat n) 0)) \<le> i \<and> i < nat n
               \<longrightarrow> bs ! i = 0)"
      using w [of n r] by auto
  next
    assume "ReadN rd t n sel = Return (b, None)"
    with a obtain r where "read rd t n = Return r" "error r = None" "result r = b"
      by blast
    then show "\<exists>bs. b = Some bs \<and> 0 \<le> n \<and> length bs = nat n \<and>
         (\<forall>i. fst (File_Read rd (fileObj t) (replicate (nat n) 0)) \<le> i \<and> i < nat n
               \<longrightarrow> bs ! i = 0)"
      using w [of n r] by auto
  next
    assume "Read rd t sel = Return (b', None)"
    with c obtain r where "read rd t ReadSize = Return r" "error r = None" "result r = b'"
      by blast
    then show "\<exists>bs. b' = Some bs \<and> length bs = 65535 \<and>
         (\<forall>i. fst (File_Read rd (fileObj t) (replicate 65535 0)) \<le> i \<and> i < 65535
               \<longrightarrow> bs ! i = 0)"
      using w [of ReadSize r] s by auto
  qed
qed

theorem successful_read_has_requested_length_witness:
  "read stream_two (sys (Open pty_ok example_system)) 4 =
     Return \<lparr>result = Some [104, 105, 0, 0], error = None\<rparr> \<and>
   error \<lparr>result = Some [104, 105, 0, 0 :: byte], error = None\<rparr> = None \<and>
   ReadN stream_two (sys (Open pty_ok example_system)) 4 RecvResult =
     Return (Some [104, 105, 0, 0], None) \<and>
   Read stream_two (sys (Open pty_ok example_system)) RecvResult =
     Return (Some ([104, 105] @ replicate 65533 0), None) \<and>
   fst (File_Read stream_two (fileObj (sys (Open pty_ok example_system))) (replicate (nat 4) 0))
     = 2 \<and>
   (\<exists>bs. Some [104, 105, 0, 0 :: byte] = Some bs \<and> length bs = nat 4 \<and>
      (\<forall>i. fst (File_Read stream_two (fileObj (sys (Open pty_ok example_system)))
                  (replicate (nat 4) 0)) \<le> i \<and> i < nat 4
            \<longrightarrow> bs ! i = 0)) \<and>
   (\<exists>bs. Some ([104, 105] @ replicate 65533 (0 :: byte)) = Some bs \<and> length bs = 65535 \<and>
      (\<forall>i. fst (File_Read stream_two (fileObj (sys (Open pty_ok example_system)))
                  (replicate 65535 0)) \<le> i \<and> i < 65535
            \<longrightarrow> bs ! i = 0))"
proof -
  have f: "fileObj (sys (Open pty_ok example_system)) = Some 3"
    by (simp add: Open_example)
  have k: "fst (File_Read stream_two (fileObj (sys (Open pty_ok example_system)))
             (replicate (nat 4) 0)) = 2"
    by (simp add: f File_Read_def stream_two_def)
  have w: "read stream_two (sys (Open pty_ok example_system)) 4 =
      Return \<lparr>result = Some [104, 105, 0, 0], error = None\<rparr>"
    by (simp add: read_def f File_Read_def stream_two_def eval_nat_numeral)
  have rn: "ReadN stream_two (sys (Open pty_ok example_system)) 4 RecvResult =
      Return (Some [104, 105, 0, 0], None)"
    by (simp add: ReadN_def transportTimeout_def w)
  have r: "Read stream_two (sys (Open pty_ok example_system)) RecvResult =
      Return (Some ([104, 105] @ replicate 65533 0), None)"
    by (simp add: Read_def transportTimeout_def read_def ReadSize_def f File_Read_def
        stream_two_def)
  from successful_read_has_requested_length
         [of stream_two "sys (Open pty_ok example_system)" 4
             "\<lparr>result = Some [104, 105, 0, 0], error = None\<rparr>" RecvResult
             "Some [104, 105, 0, 0]" "Some ([104, 105] @ replicate 65533 0)"]
       w rn r k
  show ?thesis
    by simp
qed

text \<open>
  C8. On an instance whose argument vector is not nil, \<open>Open\<close> leaves the vector as it is
  and starts the process with exactly that vector; only on the nil vector does \<open>Open\<close>
  run the builder, and then the process gets the vector just built.
\<close>

theorem Open_keeps_built_vector:
  "(OpenCmd t = Some v \<longrightarrow>
      OpenCmd (sys (Open start t)) = Some v \<and>
      cmdArgs (fst (started (Open start t))) = v) \<and>
   (OpenCmd t = None \<longrightarrow>
      OpenCmd (sys (Open start t)) = OpenCmd (buildOpenCmd t) \<and>
      cmdArgs (fst (started (Open start t))) = elems (OpenCmd (buildOpenCmd t)))"
  by (auto simp add: Open_def Let_def elems_def exec_Command_def split: sum.splits)

theorem Open_keeps_built_vector_witness:
  "OpenCmd (example_system\<lparr>OpenCmd := Some [''-V'']\<rparr>) = Some [''-V''] \<and>
   OpenCmd (sys (Open pty_ok (example_system\<lparr>OpenCmd := Some [''-V'']\<rparr>))) = Some [''-V''] \<and>
   cmdArgs (fst (started (Open pty_ok (example_system\<lparr>OpenCmd := Some [''-V'']\<rparr>)))) = [''-V''] \<and>
   OpenCmd example_system = None \<and>
   OpenCmd (sys (Open pty_ok example_system)) = Some example_vector \<and>
   cmdArgs (fst (started (Open pty_ok example_system))) = example_vector"
proof -
  have a: "OpenCmd (example_system\<lparr>OpenCmd := Some [''-V'']\<rparr>) = Some [''-V'']"
    by simp
  have b: "OpenCmd example_system = None"
    by (simp add: example_system_def)
  from Open_keeps_built_vector [of "example_system\<lparr>OpenCmd := Some [''-V'']\<rparr>" "[''-V'']" pty_ok]
    Open_keeps_built_vector [of example_system "[]" pty_ok] a b
  show ?thesis
    by (simp add: buildOpenCmd_example elems_def)
qed

text \<open>
  C10. When the pty library answers the start of the process with an error, \<open>Open\<close> and
  \<open>OpenNetconf\<close> leave \<open>fileObj\<close> as it was, so \<open>IsAlive\<close> is what it was before
  the call, and they return that very error.
\<close>

theorem spawn_failure_keeps_fileObj:
  "(started (Open start t) = (c, ws) \<and> start c ws = Inl e \<longrightarrow>
      fileObj (sys (Open start t)) = fileObj t \<and>
      IsAlive (sys (Open start t)) = IsAlive t \<and>
      ret (Open start t) = Some e) \<and>
   (started (OpenNetconf start t) = (c', ws') \<and> start c' ws' = Inl e' \<longrightarrow>
      fileObj (sys (OpenNetconf start t)) = fileObj t \<and>
      IsAlive (sys (OpenNetconf start t)) = IsAlive t \<and>
      ret (OpenNetconf start t) = Some e')"
  by (auto simp add: IsAlive_def Open_def OpenNetconf_def Let_def buildOpenCmd_frame
      split: sum.splits)

theorem spawn_failure_keeps_fileObj_witness:
  "started (Open pty_fail (example_system\<lparr>fileObj := Some 7\<rparr>)) =
     (\<lparr>cmdName = ''ssh'', cmdArgs = example_vector\<rparr>, Some \<lparr>Rows = 24, Cols = 80\<rparr>) \<and>
   pty_fail \<lparr>cmdName = ''ssh'', cmdArgs = example_vector\<rparr> (Some \<lparr>Rows = 24, Cols = 80\<rparr>)
     = Inl (OSError 2) \<and>
   fileObj (sys (Open pty_fail (example_system\<lparr>fileObj := Some 7\<rparr>))) = Some 7 \<and>
   IsAlive (sys (Open pty_fail (example_system\<lparr>fileObj := Some 7\<rparr>))) \<and>
   ret (Open pty_fail (example_system\<lparr>fileObj := Some 7\<rparr>)) = Some (OSError 2) \<and>
   started (OpenNetconf pty_fail example_system) =
     (\<lparr>cmdName = ''ssh'', cmdArgs = example_vector @ [''-tt'', ''-s'', ''netconf'']\<rparr>, None) \<and>
   pty_fail \<lparr>cmdName = ''ssh'', cmdArgs = example_vector @ [''-tt'', ''-s'', ''netconf'']\<rparr> None
     = Inl (OSError 2) \<and>
   fileObj (sys (OpenNetconf pty_fail example_system)) = None \<and>
   \<not> IsAlive (sys (OpenNetconf pty_fail example_system)) \<and>
   ret (OpenNetconf pty_fail example_system) = Some (OSError 2)"
proof -
  have f: "OpenCmd example_system = None" "ExecCmd example_system = []"
    "PtyHeight (BaseTransportArgs example_system) = 24"
    "PtyWidth (BaseTransportArgs example_system) = 80"
    "fileObj example_system = None"
    by (simp_all add: example_system_def example_base_def)
  have b: "buildOpenCmd (example_system\<lparr>fileObj := Some 7\<rparr>) =
      example_system\<lparr>fileObj := Some 7, OpenCmd := Some example_vector\<rparr>"
    by (simp add: buildOpenCmd_def example_system_def example_base_def example_args_def
      example_vector_def go_append_def sprintf_d_def digits.simps digit_char_def
      whole_seconds_5s whole_seconds_30s)
  have s: "started (Open pty_fail (example_system\<lparr>fileObj := Some 7\<rparr>)) =
     (\<lparr>cmdName = ''ssh'', cmdArgs = example_vector\<rparr>, Some \<lparr>Rows = 24, Cols = 80\<rparr>)"
    by (simp add: Open_def b Let_def f pty_fail_def exec_Command_def elems_def)
  have s': "started (OpenNetconf pty_fail example_system) =
     (\<lparr>cmdName = ''ssh'', cmdArgs = example_vector @ [''-tt'', ''-s'', ''netconf'']\<rparr>, None)"
    by (simp add: OpenNetconf_def buildOpenCmd_example Let_def pty_fail_def exec_Command_def
        elems_def go_append_def)
  have p: "pty_fail c ws = Inl (OSError 2)" for c ws
    by (simp add: pty_fail_def)
  have i: "IsAlive (example_system\<lparr>fileObj := Some 7\<rparr>)" "\<not> IsAlive example_system"
    by (simp_all add: IsAlive_def f)
  from spawn_failure_keeps_fileObj
         [of pty_fail "example_system\<lparr>fileObj := Some 7\<rparr>"
             "\<lparr>cmdName = ''ssh'', cmdArgs = example_vector\<rparr>" "Some \<lparr>Rows = 24, Cols = 80\<rparr>"
             "OSError 2" _ _ "OSError 2"]
       spawn_failure_keeps_fileObj
         [of pty_fail example_system _ _ _
             "\<lparr>cmdName = ''ssh'', cmdArgs = example_vector @ [''-tt'', ''-s'', ''netconf'']\<rparr>"
             None "OSError 2"]
       s s' p i f
  show ?thesis
    by simp
qed

text \<open>
  C6, as the code has it. \<open>Open\<close> starts the configured \<open>ExecCmd\<close>, or \<open>ssh\<close> when
  none is configured. \<open>OpenNetconf\<close> starts \<open>ssh\<close> whatever \<open>ExecCmd\<close> says: the
  program is a literal there, and the tokens it adds ask \<open>ssh\<close> for a subsystem.
\<close>

theorem spawned_program:
  "cmdName (fst (started (Open start t))) = (if ExecCmd t = '''' then ''ssh'' else ExecCmd t) \<and>
   cmdName (fst (started (OpenNetconf start t))) = ''ssh''"
  by (auto simp add: Open_def OpenNetconf_def Let_def exec_Command_def buildOpenCmd_frame
      split: sum.splits)

text \<open>
  C6 as stated fails: with \<open>ExecCmd\<close> set to \<open>docker\<close>, \<open>Open\<close> starts \<open>docker\<close>
  and \<open>OpenNetconf\<close> starts \<open>ssh\<close>.
\<close>

theorem OpenNetconf_ignores_ExecCmd:
  "ExecCmd (example_system\<lparr>ExecCmd := ''docker''\<rparr>) = ''docker'' \<and>
   cmdName (fst (started (Open pty_ok (example_system\<lparr>ExecCmd := ''docker''\<rparr>)))) = ''docker'' \<and>
   cmdName (fst (started (OpenNetconf pty_ok (example_system\<lparr>ExecCmd := ''docker''\<rparr>)))) = ''ssh'' \<and>
   cmdName (fst (started (OpenNetconf pty_ok (example_system\<lparr>ExecCmd := ''docker''\<rparr>))))
     \<noteq> cmdName (fst (started (Open pty_ok (example_system\<lparr>ExecCmd := ''docker''\<rparr>))))"
  by (simp add: Open_def OpenNetconf_def Let_def exec_Command_def buildOpenCmd_frame pty_ok_def)

text \<open>
  C5. The claim asks for the fresh build followed by \<open>-tt\<close>, \<open>-s\<close>, \<open>netconf\<close>, which
  is eighteen tokens for the transport above. The code does not deliver it on a vector that
  is already built. After an \<open>Open\<close> has built the vector, \<open>OpenNetconf\<close> runs the
  builder on it again and starts \<open>ssh\<close> with the host and every option twice (33 tokens).
  After an \<open>OpenNetconf\<close> whose spawn failed, a second \<open>OpenNetconf\<close> starts
  \<open>ssh\<close> with the whole earlier vector in front of the new one (36 tokens). \<open>Open\<close>
  runs the same builder under the test \<open>OpenCmd == nil\<close>; \<open>OpenNetconf\<close> has neither
  that test nor a reset.
\<close>

theorem OpenNetconf_keeps_previous_vector:
  "OpenCmd (sys (Open pty_ok example_system)) = Some example_vector \<and>
   OpenCmd (buildOpenCmd (sys (Open pty_ok example_system)\<lparr>OpenCmd := None\<rparr>))
     = Some example_vector \<and>
   OpenCmd (sys (OpenNetconf pty_ok (sys (Open pty_ok example_system)))) =
     Some (example_vector @ example_vector @ [''-tt'', ''-s'', ''netconf'']) \<and>
   OpenCmd (sys (OpenNetconf pty_ok (sys (Open pty_ok example_system)))) \<noteq>
     Some (example_vector @ [''-tt'', ''-s'', ''netconf'']) \<and>
   cmdArgs (fst (started (OpenNetconf pty_ok (sys (Open pty_ok example_system))))) =
     example_vector @ example_vector @ [''-tt'', ''-s'', ''netconf''] \<and>
   ret (OpenNetconf pty_fail example_system) = Some (OSError 2) \<and>
   OpenCmd (sys (OpenNetconf pty_fail example_system)) =
     Some (example_vector @ [''-tt'', ''-s'', ''netconf'']) \<and>
   cmdArgs (fst (started (OpenNetconf pty_ok (sys (OpenNetconf pty_fail example_system))))) =
     example_vector @ [''-tt'', ''-s'', ''netconf'']
       @ example_vector @ [''-tt'', ''-s'', ''netconf''] \<and>
   length (cmdArgs (fst (started
      (OpenNetconf pty_ok (sys (OpenNetconf pty_fail example_system)))))) = 36 \<and>
   length (example_vector @ [''-tt'', ''-s'', ''netconf'']) = 18"
proof -
  have a: "OpenCmd (sys (Open pty_ok example_system)) = Some example_vector"
    by (simp add: Open_example)
  have b: "OpenCmd (buildOpenCmd (sys (Open pty_ok example_system)\<lparr>OpenCmd := None\<rparr>))
      = Some example_vector"
    by (simp add: Open_example)
       (simp add: buildOpenCmd_def example_system_def example_base_def example_args_def
          example_vector_def go_append_def sprintf_d_def digits.simps digit_char_def
          whole_seconds_5s whole_seconds_30s)
  have c: "OpenCmd (sys (OpenNetconf pty_ok (sys (Open pty_ok example_system)))) =
      Some (example_vector @ example_vector @ [''-tt'', ''-s'', ''netconf''])"
    using buildOpenCmd_appends [of "sys (Open pty_ok example_system)"] a b
    by (simp add: OpenNetconf_def Let_def pty_ok_def go_append_def elems_def)
  have c': "cmdArgs (fst (started (OpenNetconf pty_ok (sys (Open pty_ok example_system))))) =
      example_vector @ example_vector @ [''-tt'', ''-s'', ''netconf'']"
    using buildOpenCmd_appends [of "sys (Open pty_ok example_system)"] a b
    by (simp add: OpenNetconf_def Let_def pty_ok_def go_append_def elems_def exec_Command_def)
  have d: "example_vector @ example_vector @ [''-tt'', ''-s'', ''netconf'']
      \<noteq> example_vector @ [''-tt'', ''-s'', ''netconf'']"
    by (simp add: example_vector_def)
  have e: "sys (OpenNetconf pty_fail example_system) =
      example_system\<lparr>OpenCmd := Some (example_vector @ [''-tt'', ''-s'', ''netconf''])\<rparr>"
    "ret (OpenNetconf pty_fail example_system) = Some (OSError 2)"
    by (simp_all add: OpenNetconf_def buildOpenCmd_example Let_def pty_fail_def go_append_def)
  have n: "example_system\<lparr>OpenCmd := None\<rparr> = example_system"
    by (simp add: example_system_def)
  have f: "OpenCmd (buildOpenCmd (example_system
         \<lparr>OpenCmd := Some (example_vector @ [''-tt'', ''-s'', ''netconf''])\<rparr>)) =
      Some (example_vector @ [''-tt'', ''-s'', ''netconf''] @ example_vector)"
    using buildOpenCmd_appends
      [of "example_system\<lparr>OpenCmd := Some (example_vector @ [''-tt'', ''-s'', ''netconf''])\<rparr>"]
      n
    by (simp add: buildOpenCmd_example elems_def)
  have g: "cmdArgs (fst (started (OpenNetconf pty_ok (sys (OpenNetconf pty_fail example_system)))))
      = example_vector @ [''-tt'', ''-s'', ''netconf'']
          @ example_vector @ [''-tt'', ''-s'', ''netconf'']"
  proof -
    have "cmdArgs (fst (started (OpenNetconf pty_ok (example_system
             \<lparr>OpenCmd := Some (example_vector @ [''-tt'', ''-s'', ''netconf''])\<rparr>)))) =
        example_vector @ [''-tt'', ''-s'', ''netconf'']
          @ example_vector @ [''-tt'', ''-s'', ''netconf'']"
      using f
      by (simp add: OpenNetconf_def Let_def pty_ok_def go_append_def elems_def exec_Command_def)
    then show ?thesis
      by (simp only: e(1))
  qed
  have l: "length example_vector = 15"
    by (simp add: example_vector_def)
  from a b c c' d e g l show ?thesis
    by simp
qed

text \<open>
  C7, as the code has it. The guard does not test the sign of the duration. With a zero or
  negative duration it returns the empty payload and the timeout error when the \<open>select\<close>
  receives the timer's tick, and the worker's payload and error when the \<open>select\<close>
  receives the worker's result.
\<close>

theorem transportTimeout_nonpositive:
  assumes "d \<le> 0"
  shows "transportTimeout d f RecvTimer = Return (Some [], Some ErrTransportTimeout) \<and>
         transportTimeout d f RecvResult =
           (case f () of Panic \<Rightarrow> Panic | Return r \<Rightarrow> Return (result r, error r))"
  by (simp add: transportTimeout_branches)

theorem transportTimeout_nonpositive_witness:
  "(0 :: Duration) \<le> 0 \<and>
   transportTimeout 0 (\<lambda>_. Return \<lparr>result = Some [1], error = None\<rparr>) RecvTimer =
     Return (Some [], Some ErrTransportTimeout) \<and>
   transportTimeout 0 (\<lambda>_. Return \<lparr>result = Some [1], error = None\<rparr>) RecvResult =
     Return (Some [1], None)"
proof -
  have a: "(0 :: Duration) \<le> 0"
    by simp
  from transportTimeout_nonpositive [OF a, of "\<lambda>_. Return \<lparr>result = Some [1], error = None\<rparr>"] a
  show ?thesis
    by simp
qed

text \<open>
  C7 as stated fails: with the duration 0, and with the duration of minus one second, a
  worker that returns at once has its result received by the \<open>select\<close>, and the guard
  returns that result and no timeout error.
\<close>

theorem transportTimeout_nonpositive_not_timeout:
  "transportTimeout 0 (\<lambda>_. Return \<lparr>result = Some [1], error = None\<rparr>) RecvResult =
     Return (Some [1], None) \<and>
   transportTimeout 0 (\<lambda>_. Return \<lparr>result = Some [1], error = None\<rparr>) RecvResult \<noteq>
     Return (Some [], Some ErrTransportTimeout) \<and>
   transportTimeout (- 1000000000) (\<lambda>_. Return \<lparr>result = Some [1], error = None\<rparr>) RecvResult =
     Return (Some [1], None) \<and>
   transportTimeout (- 1000000000) (\<lambda>_. Return \<lparr>result = Some [1], error = None\<rparr>) RecvResult \<noteq>
     Return (Some [], Some ErrTransportTimeout)"
  by (simp add: transportTimeout_def)

end
